theory Spec2Isabelle
  imports Main
begin

section \<open>Data of the radio player\<close>

text \<open>
  A stream source of a station is the object \<^verbatim>\<open>{src, type}\<close>. A station has the four
  fields \<^verbatim>\<open>id\<close>, \<^verbatim>\<open>title\<close>, \<^verbatim>\<open>description\<close> and \<^verbatim>\<open>source\<close>; the field \<^verbatim>\<open>id\<close> is
  called \<open>sid\<close> here, since \<open>id\<close> is the identity function of HOL, and \<^verbatim>\<open>type\<close> is called
  \<open>mime\<close>. The same record type stands for a plain data record (a seed entry, an entry of
  the stored snapshot) and for a \<^verbatim>\<open>Station\<close> object: the objects are the records that
  passed the constructor. No code of the two source files assigns to a field of a
  \<^verbatim>\<open>Station\<close> object, so an object reference is modelled by the value it refers to.
\<close>

record source_entry =
  src :: string
  mime :: string

record station =
  sid :: string
  title :: string
  description :: string
  source :: "source_entry list"

text \<open>
  The draft of the editor (\<^verbatim>\<open>selectedStation\<close>) is a plain object with the station's
  fields and the flag \<^verbatim>\<open>isNew\<close>, which is absent (falsy) on a draft opened for an edit.
\<close>

record draft = station +
  isNew :: bool

text \<open>
  Exceptions are values. The first five names are the failure kinds of the specification
  (the source raises \<^verbatim>\<open>Error\<close> objects that differ in their message only);
  \<open>EditorInvalidId\<close> is the \<^verbatim>\<open>Error\<close> of \<^verbatim>\<open>StationEditor.open\<close>, and \<open>TypeError\<close> is what
  JavaScript raises on a property read of \<^verbatim>\<open>undefined\<close> and on a call of a missing method.
\<close>

datatype error =
    InvalidId
  | InvalidTitle
  | InvalidSource
  | DuplicateStation
  | UnknownStation string
  | EditorInvalidId
  | TypeError

datatype log_entry = LogDebug string | LogError string

text \<open>
  The array \<^verbatim>\<open>stream.stations\<close> is a JavaScript array: its indexed elements, and the own
  property \<^verbatim>\<open>"-1"\<close> that an assignment \<^verbatim>\<open>stations[-1] = s\<close> creates. Such a property is not
  an element: it changes neither \<^verbatim>\<open>length\<close> nor what \<^verbatim>\<open>forEach\<close>, \<^verbatim>\<open>splice\<close> and
  \<^verbatim>\<open>JSON.stringify\<close> see.
\<close>

record station_array =
  elems :: "station list"
  prop_m1 :: "station option"

text \<open>
  What \<^verbatim>\<open>JSON.parse\<close> returns, as far as \<^verbatim>\<open>beforeMount\<close> looks at it: an array of plain
  records, or a value that has no \<^verbatim>\<open>forEach\<close> method (an object, a number, \<^verbatim>\<open>null\<close>, ...).
\<close>

datatype js_value = JArray "station list" | JOther

text \<open>
  The built-in functions of the platform that the code calls are parameters of the
  functions that call them: \<^verbatim>\<open>JSON.parse\<close> (a function to \<open>js_value option\<close>, where \<open>None\<close>
  is its \<^verbatim>\<open>SyntaxError\<close>), \<^verbatim>\<open>JSON.stringify\<close> applied to the elements of the station
  array, and \<^verbatim>\<open>String.prototype.toLowerCase\<close>.
\<close>

text \<open>
  The state: the \<^verbatim>\<open>stream\<close> object of the application (\<^verbatim>\<open>app.js\<close>, lines 34 to 38), the
  browser's \<^verbatim>\<open>localStorage\<close> (\<open>None\<close> when the browser offers none), the calls of the logger,
  the \<^verbatim>\<open>player.reload(play)\<close> calls handed to \<^verbatim>\<open>Vue.nextTick\<close>, the paths pushed to the
  router, and the data of the station editor (\<^verbatim>\<open>StationEditor.js\<close>, lines 53 to 58) with
  the state of its dialog. The editor's property \<^verbatim>\<open>stations\<close> is the array
  \<^verbatim>\<open>stream.stations\<close> itself: the page binds it, and both files work on the one array.

  \<open>stations_notified\<close> says that Vue has seen a change of \<^verbatim>\<open>stream.stations\<close> and has queued
  the watcher of lines 73 to 79. The array methods \<^verbatim>\<open>push\<close> and \<^verbatim>\<open>splice\<close> notify Vue; an
  assignment to an index does not, as the note at line 130 of \<^verbatim>\<open>StationEditor.js\<close> records.
  The watchers of the current station (the title of the document) and of the visualizer
  setting are left out: they touch neither the registry nor the storage key
  \<^verbatim>\<open>stations\<close>.
\<close>

record app =
  currentStation :: "station option"
  defaultStation :: string
  stations :: station_array
  stations_notified :: bool
  localStorage :: "(string \<rightharpoonup> string) option"
  logged :: "log_entry list"
  nextTick :: "bool list"
  routerPushed :: "string list"
  selectedStation :: "draft option"
  validationError :: "error option"
  dialogOpen :: bool

section \<open>Station and Util\<close>

text \<open>
  Modelled from the spec: the constructor \<^verbatim>\<open>new Station(id, title, description, source)\<close> of
  \<^verbatim>\<open>Station.js\<close>, which is not among the sources. Section 4.1: it fails with \<open>InvalidId\<close>
  if the id is empty, with \<open>InvalidTitle\<close> if the title is empty, with \<open>InvalidSource\<close> if
  the source list is empty or one of its elements has an empty \<^verbatim>\<open>src\<close>; otherwise the
  fields of the result are the arguments.
\<close>

definition Station :: "string \<Rightarrow> string \<Rightarrow> string \<Rightarrow> source_entry list \<Rightarrow> error + station" where
  "Station i t d s =
     (if i = [] then Inl InvalidId
      else if t = [] then Inl InvalidTitle
      else if s = [] \<or> list_ex (\<lambda>x. src x = []) s then Inl InvalidSource
      else Inr \<lparr>sid = i, title = t, description = d, source = s\<rparr>)"

text \<open>
  Modelled from the spec: \<^verbatim>\<open>Station.fromJSON\<close> of \<^verbatim>\<open>Station.js\<close>, the operation
  \<^verbatim>\<open>fromSerialized\<close> of section 4.1: it rebuilds a station from a plain data record with
  the validation of the constructor.
\<close>

definition fromJSON :: "station \<Rightarrow> error + station" where
  "fromJSON r = Station (sid r) (title r) (description r) (source r)"

text \<open>
  Modelled from the spec: \<^verbatim>\<open>clone\<close> of \<^verbatim>\<open>Station.js\<close>, a deep and independent copy
  (section 4.1); on values it is the identity.
\<close>

definition clone :: "station \<Rightarrow> station" where
  "clone s = s"

text \<open>
  Modelled from the spec: \<^verbatim>\<open>Util.getStationIndex\<close> of \<^verbatim>\<open>Util.js\<close>, the operation
  \<^verbatim>\<open>findIndex\<close> of section 4.2: the index of the station with the given id, by exact
  string comparison, and the sentinel \<open>-1\<close> when there is none. With several stations of
  that id it is the first one.
\<close>

fun getStationIndex :: "station list \<Rightarrow> string \<Rightarrow> int" where
  "getStationIndex [] i = - 1"
| "getStationIndex (s # ss) i =
     (if sid s = i then 0
      else (let k = getStationIndex ss i in if k = - 1 then - 1 else k + 1))"

text \<open>
  Modelled from the spec: \<^verbatim>\<open>Util.addStation\<close> of \<^verbatim>\<open>Util.js\<close>, the operation \<^verbatim>\<open>add\<close> of
  section 4.2: (1) reject a duplicate id with \<open>DuplicateStation\<close>; (2) construct the
  station, handing on a failure of the constructor; (3) append it to the registry. The
  array is changed in place: the result is the array after the call and the exception
  raised, if any.
\<close>

definition Util_addStation ::
  "station list \<Rightarrow> string \<Rightarrow> string \<Rightarrow> string \<Rightarrow> source_entry list \<Rightarrow> station list \<times> error option" where
  "Util_addStation reg i t d s =
     (if getStationIndex reg i \<noteq> - 1 then (reg, Some DuplicateStation)
      else (case Station i t d s of
              Inl e \<Rightarrow> (reg, Some e)
            | Inr st \<Rightarrow> (reg @ [st], None)))"

text \<open>
  Modelled from the spec: \<^verbatim>\<open>Util.addStationObject\<close> of \<^verbatim>\<open>Util.js\<close>, the registry half of
  \<^verbatim>\<open>addFromExternalRecord\<close> of section 4.2: a station whose id is in the registry is
  discarded silently, any other is appended.
\<close>

definition Util_addStationObject :: "station list \<Rightarrow> station \<Rightarrow> station list" where
  "Util_addStationObject reg st = (if getStationIndex reg (sid st) \<noteq> - 1 then reg else reg @ [st])"

section \<open>The application: app.js\<close>

text \<open>
  The watcher of \<^verbatim>\<open>stream.stations\<close> (lines 73 to 79) writes the serialised array to the
  storage key \<^verbatim>\<open>stations\<close>, if there is a storage. Vue runs a queued watcher after the
  handler that changed the data has returned: \<open>run_watchers\<close>.
\<close>

definition stations_watch :: "(station list \<Rightarrow> string) \<Rightarrow> app \<Rightarrow> app" where
  "stations_watch JSON_stringify st =
     (case localStorage st of
        None \<Rightarrow> st
      | Some m \<Rightarrow> st\<lparr>localStorage := Some (m(''stations'' \<mapsto> JSON_stringify (elems (stations st))))\<rparr>)"

definition run_watchers :: "(station list \<Rightarrow> string) \<Rightarrow> app \<Rightarrow> app" where
  "run_watchers JSON_stringify st =
     (if stations_notified st then (stations_watch JSON_stringify st)\<lparr>stations_notified := False\<rparr> else st)"

text \<open>
  \<^verbatim>\<open>switchStation(id, play)\<close>, lines 194 to 208. The result is the state after the call and
  the exception it raised, if any; the \<^verbatim>\<open>throw\<close> of line 199 comes before every
  assignment.
\<close>

definition switchStation :: "app \<Rightarrow> string \<Rightarrow> bool \<Rightarrow> app \<times> error option" where
  "switchStation st i play =
     (if (case currentStation st of None \<Rightarrow> False | Some c \<Rightarrow> i = sid c) then (st, None)
      else
        (let index = getStationIndex (elems (stations st)) i in
         if index = - 1 then (st, Some (UnknownStation i))
         else
           (st\<lparr>currentStation := Some (elems (stations st) ! nat index),
               nextTick := nextTick st @ [play],
               logged := logged st @ [LogDebug ''Switched station to'']\<rparr>, None)))"

text \<open>
  The watcher of the route (lines 64 to 72): a failed switch pushes the default station
  to the router.
\<close>

definition route_watch :: "string \<Rightarrow> app \<Rightarrow> app" where
  "route_watch path st =
     (case switchStation (st\<lparr>logged := logged st @ [LogDebug ''ROUTE CHANGED'']\<rparr>) (drop 1 path) True of
        (st1, None) \<Rightarrow> st1
      | (st1, Some e) \<Rightarrow> st1\<lparr>routerPushed := routerPushed st1 @ [defaultStation st1]\<rparr>)"

text \<open>
  \<^verbatim>\<open>beforeMount\<close>, step 1 (lines 91 to 102): every seed record goes through the
  constructor; a station is pushed, a failure is collected in \<^verbatim>\<open>failedStations\<close>.
\<close>

definition addSeed :: "station list \<times> station list \<Rightarrow> station \<Rightarrow> station list \<times> station list" where
  "addSeed acc r =
     (case Station (sid r) (title r) (description r) (source r) of
        Inl e \<Rightarrow> (fst acc, snd acc @ [r])
      | Inr s \<Rightarrow> (fst acc @ [s], snd acc))"

definition seedStations :: "station list \<Rightarrow> app \<Rightarrow> app" where
  "seedStations seeds st =
     (let r = foldl addSeed (elems (stations st), []) seeds;
          st1 = st\<lparr>stations := (stations st)\<lparr>elems := fst r\<rparr>,
                   stations_notified := (stations_notified st \<or> length (fst r) \<noteq> length (elems (stations st)))\<rparr>
      in if length (snd r) > 0
         then st1\<lparr>logged := logged st1 @ [LogError ''Some stations failed to parse'']\<rparr>
         else st1)"

text \<open>
  Step 2 (lines 104 to 133). The body of the \<^verbatim>\<open>forEach\<close> of lines 123 to 130 is
  \<open>mergeRecord\<close>; the registry and the log are its state. An exception of
  \<^verbatim>\<open>Station.fromJSON\<close> is caught and logged at line 128.
\<close>

definition mergeRecord :: "station list \<times> log_entry list \<Rightarrow> station \<Rightarrow> station list \<times> log_entry list" where
  "mergeRecord acc r =
     (case fromJSON r of
        Inl e \<Rightarrow> (fst acc, snd acc @ [LogDebug ''addStation() for local storage station failed''])
      | Inr s \<Rightarrow> (Util_addStationObject (fst acc) s, snd acc))"

definition mergeStored :: "station list \<Rightarrow> station list \<Rightarrow> station list" where
  "mergeStored reg recs = fst (foldl mergeRecord (reg, []) recs)"

text \<open>
  \<^verbatim>\<open>if (storedStations)\<close> holds for a string that is not empty; \<^verbatim>\<open>getItem\<close> returns
  \<^verbatim>\<open>null\<close> for a key that is not stored. A parsed value without \<^verbatim>\<open>forEach\<close> raises a
  \<^verbatim>\<open>TypeError\<close> at line 123, outside every \<^verbatim>\<open>try\<close>.
\<close>

definition loadStored :: "(string \<Rightarrow> js_value option) \<Rightarrow> app \<Rightarrow> app \<times> error option" where
  "loadStored JSON_parse st =
     (case localStorage st of
        None \<Rightarrow> (st, None)
      | Some m \<Rightarrow>
         (case m ''stations'' of
            None \<Rightarrow> (st, None)
          | Some txt \<Rightarrow>
             if txt = [] then (st, None)
             else
               (case JSON_parse txt of
                  None \<Rightarrow>
                    (st\<lparr>logged := logged st @ [LogError ''Could not parse station config from local storage''],
                        localStorage := Some (m(''stations'' := None))\<rparr>, None)
                | Some v \<Rightarrow>
                    (let st1 = st\<lparr>logged := logged st @ [LogDebug ''Loaded stations object from localstorage'']\<rparr> in
                     case v of
                       JOther \<Rightarrow> (st1, Some TypeError)
                     | JArray recs \<Rightarrow>
                         (let r = foldl mergeRecord (elems (stations st1), logged st1) recs in
                          (st1\<lparr>stations := (stations st1)\<lparr>elems := fst r\<rparr>,
                               stations_notified :=
                                 (stations_notified st1 \<or> length (fst r) \<noteq> length (elems (stations st1))),
                               logged := snd r\<rparr>, None))))))"

text \<open>
  Step 3 (lines 135 to 149): the first station, from the path of the route or the
  default. \<^verbatim>\<open>path.substring(1)\<close> drops the leading slash; \<open>fallback_message\<close> is the
  text of the template literal of line 145.
\<close>

definition fallback_message :: "string \<Rightarrow> string" where
  "fallback_message route =
     ''Route url '' @ route @ '' doesn't contain valid station id, fallback to default.''"

definition initialStation :: "string \<Rightarrow> app \<Rightarrow> app \<times> error option" where
  "initialStation route st =
     (if route = ''/'' then switchStation st (defaultStation st) False
      else
        (case switchStation st (drop 1 route) False of
           (st1, None) \<Rightarrow> (st1, None)
         | (st1, Some e) \<Rightarrow>
             (let st2 = st1\<lparr>logged := logged st1 @ [LogDebug (fallback_message route)]\<rparr>
              in case switchStation st2 (defaultStation st2) False of
                   (st3, Some e') \<Rightarrow> (st3, Some e')
                 | (st3, None) \<Rightarrow> (st3\<lparr>routerPushed := routerPushed st3 @ [defaultStation st3]\<rparr>, None))))"

definition beforeMount ::
  "(string \<Rightarrow> js_value option) \<Rightarrow> station list \<Rightarrow> string \<Rightarrow> app \<Rightarrow> app \<times> error option" where
  "beforeMount JSON_parse seeds route st =
     (let st0 = st\<lparr>logged := logged st @ [LogDebug ''Application BEFORE MOUNT'']\<rparr> in
      case loadStored JSON_parse (seedStations seeds st0) of
        (st2, Some e) \<Rightarrow> (st2, Some e)
      | (st2, None) \<Rightarrow> initialStation route st2)"

section \<open>The station editor: StationEditor.js\<close>

text \<open>
  \<^verbatim>\<open>$refs.dialog.close()\<close> closes the dialog; the dialog then emits \<^verbatim>\<open>close\<close>, and the
  handler of the template (line 5) resets \<^verbatim>\<open>validationError\<close>.
\<close>

definition dialog_close :: "app \<Rightarrow> app" where
  "dialog_close st = st\<lparr>dialogOpen := False, validationError := None\<rparr>"

text \<open>
  \<^verbatim>\<open>open(id)\<close>, lines 66 to 98; \<^verbatim>\<open>if (id)\<close> fails for a missing and for an empty id.
\<close>

definition open_editor :: "string option \<Rightarrow> app \<Rightarrow> app \<times> error option" where
  "open_editor i st =
     (if (case i of None \<Rightarrow> False | Some x \<Rightarrow> x \<noteq> []) then
        (let stationIndex = getStationIndex (elems (stations st)) (the i) in
         if stationIndex = - 1 then (st, Some EditorInvalidId)
         else
           (let s = clone (elems (stations st) ! nat stationIndex) in
            (st\<lparr>selectedStation :=
                  Some \<lparr>sid = sid s, title = title s, description = description s,
                        source = source s, isNew = False\<rparr>,
                dialogOpen := True\<rparr>, None)))
      else
        (st\<lparr>selectedStation :=
              Some \<lparr>sid = [], title = [], description = [],
                    source = [\<lparr>src = [], mime = []\<rparr>], isNew = True\<rparr>,
            dialogOpen := True\<rparr>, None))"

text \<open>
  \<^verbatim>\<open>title.replace(" ", "_")\<close>: with a string as its pattern, \<^verbatim>\<open>replace\<close> rewrites the first
  occurrence only.
\<close>

fun replace_first :: "char \<Rightarrow> char \<Rightarrow> string \<Rightarrow> string" where
  "replace_first a b [] = []"
| "replace_first a b (c # cs) = (if c = a then b # cs else c # replace_first a b cs)"

text \<open>
  \<^verbatim>\<open>addStation()\<close>, lines 105 to 122. Without a draft, the read of line 109 raises a
  \<^verbatim>\<open>TypeError\<close>, outside the \<^verbatim>\<open>try\<close>. The push inside \<^verbatim>\<open>Util.addStation\<close> notifies Vue.
\<close>

definition addStation :: "(string \<Rightarrow> string) \<Rightarrow> app \<Rightarrow> app \<times> error option" where
  "addStation toLowerCase st =
     (let st1 = st\<lparr>validationError := None\<rparr> in
      case selectedStation st1 of
        None \<Rightarrow> (st1, Some TypeError)
      | Some d0 \<Rightarrow>
         (let d = d0\<lparr>sid := toLowerCase (replace_first CHR '' '' CHR ''_'' (title d0))\<rparr>;
              st2 = st1\<lparr>selectedStation := Some d\<rparr>
          in case Util_addStation (elems (stations st2)) (sid d) (title d) (description d) (source d) of
               (reg, Some e) \<Rightarrow>
                 (st2\<lparr>stations := (stations st2)\<lparr>elems := reg\<rparr>,
                      logged := logged st2 @ [LogError ''User attempted to add station but it failed''],
                      validationError := Some e\<rparr>, None)
             | (reg, None) \<Rightarrow>
                 (dialog_close (st2\<lparr>stations := (stations st2)\<lparr>elems := reg\<rparr>,
                                    stations_notified := True\<rparr>), None)))"

text \<open>
  \<^verbatim>\<open>saveStationEdit()\<close>, lines 129 to 148. Everything is inside the \<^verbatim>\<open>try\<close>, so the method
  raises nothing. After the log call of line 137 the method goes on: the right-hand side
  of line 139 is evaluated, and the assignment stores the station under the index found.
  \<^verbatim>\<open>Util.getStationIndex\<close> returns \<open>-1\<close> or a position of the array, so the assignment
  either creates the property \<^verbatim>\<open>"-1"\<close> or overwrites an element. Vue is not notified.
\<close>

definition saveStationEdit :: "app \<Rightarrow> app" where
  "saveStationEdit st =
     (let st1 = st\<lparr>validationError := None\<rparr> in
      case selectedStation st1 of
        None \<Rightarrow>
          st1\<lparr>logged := logged st1 @ [LogError ''User attempted to edit station but it failed''],
              validationError := Some TypeError\<rparr>
      | Some d \<Rightarrow>
         (let stationIndex = getStationIndex (elems (stations st1)) (sid d);
              st2 = (if stationIndex = - 1
                     then st1\<lparr>logged := logged st1 @
                            [LogError ''Attempted to save station data but could not find station in array by id'']\<rparr>
                     else st1)
          in case Station (sid d) (title d) (description d) (source d) of
               Inl e \<Rightarrow>
                 st2\<lparr>logged := logged st2 @ [LogError ''User attempted to edit station but it failed''],
                     validationError := Some e\<rparr>
             | Inr s \<Rightarrow>
                 dialog_close
                   (st2\<lparr>stations :=
                          (if stationIndex = - 1 then (stations st2)\<lparr>prop_m1 := Some s\<rparr>
                           else (stations st2)\<lparr>elems := (elems (stations st2))[nat stationIndex := s]\<rparr>)\<rparr>)))"

text \<open>
  \<^verbatim>\<open>deleteHandler()\<close>, lines 151 to 157; \<^verbatim>\<open>splice(index, 1)\<close> removes the element at
  \<open>index\<close> and notifies Vue.
\<close>

definition splice1 :: "'a list \<Rightarrow> nat \<Rightarrow> 'a list" where
  "splice1 xs n = take n xs @ drop (Suc n) xs"

definition deleteHandler :: "app \<Rightarrow> app \<times> error option" where
  "deleteHandler st =
     (case selectedStation st of
        None \<Rightarrow> (st, Some TypeError)
      | Some d \<Rightarrow>
         (let index = getStationIndex (elems (stations st)) (sid d) in
          if index \<noteq> - 1
          then (dialog_close (st\<lparr>stations := (stations st)\<lparr>elems := splice1 (elems (stations st)) (nat index)\<rparr>,
                                   stations_notified := True\<rparr>), None)
          else (st, None)))"

section \<open>Example data\<close>

text \<open>
  The data of the application at its creation (\<^verbatim>\<open>app.js\<close>, lines 29 to 62), for a given
  storage, with the editor's data (\<^verbatim>\<open>StationEditor.js\<close>, lines 53 to 58).
\<close>

definition initial_app :: "(string \<rightharpoonup> string) option \<Rightarrow> app" where
  "initial_app storage =
     \<lparr>currentStation = None, defaultStation = ''liquid_radio'',
      stations = \<lparr>elems = [], prop_m1 = None\<rparr>, stations_notified = False,
      localStorage = storage, logged = [], nextTick = [], routerPushed = [],
      selectedStation = None, validationError = None, dialogOpen = False\<rparr>"

definition liquid_radio :: station where
  "liquid_radio =
     \<lparr>sid = ''liquid_radio'', title = ''Liquid Radio'', description = ''Drum and Bass'',
      source = [\<lparr>src = ''http://stream.example/liquid'', mime = ''audio/mpeg''\<rparr>]\<rparr>"

definition jazz_fm :: station where
  "jazz_fm =
     \<lparr>sid = ''jazz_fm'', title = ''Jazz FM'', description = [],
      source = [\<lparr>src = ''http://x/stream'', mime = ''audio/mpeg''\<rparr>]\<rparr>"

text \<open>A stored record that takes the id of the seeded station \<open>liquid_radio\<close>.\<close>

definition stored_liquid :: station where
  "stored_liquid =
     \<lparr>sid = ''liquid_radio'', title = ''Stored'', description = ''from the snapshot'',
      source = [\<lparr>src = ''http://other.example/stream'', mime = []\<rparr>]\<rparr>"

text \<open>A seed record that the constructor rejects: it has no source.\<close>

definition broken_seed :: station where
  "broken_seed = \<lparr>sid = ''broken'', title = ''Broken'', description = [], source = []\<rparr>"

text \<open>
  \<^verbatim>\<open>JSON.parse\<close> on the two texts of the examples: a snapshot with the records
  \<open>stored_liquid\<close> and \<open>jazz_fm\<close>, and a text that is no JSON.
\<close>

definition snapshot_text :: string where
  \<open>snapshot_text =
     ''[{"id":"liquid_radio","title":"Stored","description":"from the snapshot",'' @
     ''"source":[{"src":"http://other.example/stream","type":""}]},'' @
     ''{"id":"jazz_fm","title":"Jazz FM","description":"",'' @
     ''"source":[{"src":"http://x/stream","type":"audio/mpeg"}]}]''\<close>

definition example_parse :: "string \<Rightarrow> js_value option" where
  "example_parse txt = (if txt = snapshot_text then Some (JArray [stored_liquid, jazz_fm]) else None)"

text \<open>\<^verbatim>\<open>toLowerCase\<close> on ASCII text.\<close>

definition ascii_lower :: "char \<Rightarrow> char" where
  "ascii_lower c =
     (case map_of (zip ''ABCDEFGHIJKLMNOPQRSTUVWXYZ'' ''abcdefghijklmnopqrstuvwxyz'') c of
        None \<Rightarrow> c
      | Some l \<Rightarrow> l)"

definition ascii_toLowerCase :: "string \<Rightarrow> string" where
  "ascii_toLowerCase t = map ascii_lower t"

text \<open>
  The editor with the draft of a new station titled \<^verbatim>\<open>Jazz FM Two\<close>, over the registry
  \<open>reg\<close>.
\<close>

definition new_draft_app :: "station list \<Rightarrow> app" where
  "new_draft_app reg =
     (let st = fst (open_editor None ((initial_app None)\<lparr>stations := \<lparr>elems = reg, prop_m1 = None\<rparr>\<rparr>))
      in st\<lparr>selectedStation :=
              map_option (\<lambda>d. d\<lparr>title := ''Jazz FM Two'',
                                   source := [\<lparr>src = ''http://x/stream'', mime = ''audio/mpeg''\<rparr>]\<rparr>)
                (selectedStation st)\<rparr>)"

text \<open>
  The application after its start from the seed list \<open>seeds\<close> on the root route, without
  a storage, and with the editor opened on the station \<open>i\<close>.
\<close>

definition started_app :: "station list \<Rightarrow> app" where
  "started_app seeds = fst (beforeMount (\<lambda>txt. None) seeds ''/'' (initial_app None))"

definition editing_app :: "station list \<Rightarrow> string \<Rightarrow> app" where
  "editing_app seeds i = fst (open_editor (Some i) (started_app seeds))"

text \<open>
  The application started on the seed list \<open>[liquid_radio]\<close> with an empty storage, after
  Vue has run the watcher, so that the storage holds the snapshot of the registry; then
  the editor is opened on \<open>liquid_radio\<close> and the user types a new title into the draft.
\<close>

definition persisted_app :: "(station list \<Rightarrow> string) \<Rightarrow> app" where
  "persisted_app JSON_stringify =
     run_watchers JSON_stringify
       (fst (beforeMount (\<lambda>txt. None) [liquid_radio] ''/'' (initial_app (Some Map.empty))))"

definition retitled_app :: "(station list \<Rightarrow> string) \<Rightarrow> app" where
  "retitled_app JSON_stringify =
     (let st = fst (open_editor (Some ''liquid_radio'') (persisted_app JSON_stringify))
      in st\<lparr>selectedStation := map_option (\<lambda>d. d\<lparr>title := ''Liquid Two''\<rparr>) (selectedStation st)\<rparr>)"

text \<open>
  The application started on \<open>[liquid_radio, jazz_fm]\<close>, whose current station is
  \<open>liquid_radio\<close>: the user opens the editor on the current station, types a new title,
  saves, and opens the editor on the station again.
\<close>

definition resaved_current_app :: app where
  "resaved_current_app =
     (let st = editing_app [liquid_radio, jazz_fm] ''liquid_radio'';
          st1 = saveStationEdit
                  (st\<lparr>selectedStation :=
                        map_option (\<lambda>d. d\<lparr>title := ''Liquid Two''\<rparr>) (selectedStation st)\<rparr>)
      in fst (open_editor (Some ''liquid_radio'') st1))"

section \<open>The lookup and the list operations\<close>

lemma getStationIndex_range:
  "getStationIndex ss i = - 1 \<or> (0 \<le> getStationIndex ss i \<and> getStationIndex ss i < int (length ss))"
  by (induction ss) (auto simp: Let_def)

lemma getStationIndex_absent:
  "(getStationIndex ss i = - 1) = (i \<notin> sid ` set ss)"
proof (induction ss)
  case Nil
  show ?case by simp
next
  case (Cons s ss)
  have "getStationIndex ss i = - 1 \<or> 0 \<le> getStationIndex ss i"
    using getStationIndex_range [of ss i] by blast
  with Cons show ?case by (auto simp: Let_def)
qed

lemma getStationIndex_found:
  "getStationIndex ss i \<noteq> - 1 \<Longrightarrow> sid (ss ! nat (getStationIndex ss i)) = i"
proof (induction ss)
  case Nil
  then show ?case by simp
next
  case (Cons s ss)
  show ?case
  proof (cases "sid s = i")
    case True
    then show ?thesis by simp
  next
    case False
    with Cons.prems have ne: "getStationIndex ss i \<noteq> - 1"
      by (auto simp: Let_def split: if_splits)
    then have ge: "0 \<le> getStationIndex ss i"
      using getStationIndex_range [of ss i] by blast
    have "nat (getStationIndex ss i + 1) = Suc (nat (getStationIndex ss i))"
      using ge by simp
    with False ne Cons.IH show ?thesis by (simp add: Let_def)
  qed
qed

lemma getStationIndex_append_found:
  "getStationIndex xs i \<noteq> - 1 \<Longrightarrow> getStationIndex (xs @ ys) i = getStationIndex xs i"
  by (induction xs) (auto simp: Let_def split: if_splits)

lemma single_filter_absent:
  "length (filter (\<lambda>s. sid s = i) xs) = 0 \<Longrightarrow> getStationIndex xs i = - 1"
  by (auto simp: getStationIndex_absent filter_empty_conv)

lemma splice1_Cons_Suc: "splice1 (x # xs) (Suc n) = x # splice1 xs n"
  by (simp add: splice1_def)

lemma splice1_removes_only:
  "length (filter (\<lambda>s. sid s = i) xs) \<le> 1 \<Longrightarrow> getStationIndex xs i \<noteq> - 1 \<Longrightarrow>
   getStationIndex (splice1 xs (nat (getStationIndex xs i))) i = - 1"
proof (induction xs)
  case Nil
  then show ?case by simp
next
  case (Cons x xs)
  show ?case
  proof (cases "sid x = i")
    case True
    with Cons.prems(1) have "length (filter (\<lambda>s. sid s = i) xs) = 0" by simp
    then have "getStationIndex xs i = - 1" by (rule single_filter_absent)
    with True show ?thesis by (simp add: splice1_def)
  next
    case False
    with Cons.prems have ne: "getStationIndex xs i \<noteq> - 1"
      by (auto simp: Let_def split: if_splits)
    then have ge: "0 \<le> getStationIndex xs i"
      using getStationIndex_range [of xs i] by blast
    have n: "nat (getStationIndex xs i + 1) = Suc (nat (getStationIndex xs i))"
      using ge by simp
    from False Cons.prems(1) have "length (filter (\<lambda>s. sid s = i) xs) \<le> 1" by simp
    with ne Cons.IH have "getStationIndex (splice1 xs (nat (getStationIndex xs i))) i = - 1" by simp
    with False ne n show ?thesis by (simp add: Let_def splice1_Cons_Suc)
  qed
qed

lemma length_splice1: "n < length xs \<Longrightarrow> length (splice1 xs n) = length xs - 1"
  by (simp add: splice1_def)

lemma replace_first_split:
  "a \<notin> set xs \<Longrightarrow> replace_first a b (xs @ a # ys) = xs @ b # ys"
  by (induction xs) auto

lemma replace_first_none: "a \<notin> set xs \<Longrightarrow> replace_first a b xs = xs"
  by (induction xs) auto

lemmas start_defs =
  started_app_def beforeMount_def seedStations_def addSeed_def Station_def
  loadStored_def initialStation_def switchStation_def initial_app_def Let_def

section \<open>The merge of the stored snapshot\<close>

lemma Station_Inr: "Station i t d s = Inr x \<Longrightarrow> sid x = i"
  by (auto simp: Station_def split: if_splits)

lemma mergeRecord_fst_log: "fst (mergeRecord (reg, l) r) = fst (mergeRecord (reg, l') r)"
  by (simp add: mergeRecord_def split: sum.splits)

lemma foldl_mergeRecord_fst:
  "fst (foldl mergeRecord (reg, l) recs) = mergeStored reg recs"
proof (induction recs arbitrary: reg l)
  case Nil
  show ?case by (simp add: mergeStored_def)
next
  case (Cons r recs)
  have "fst (foldl mergeRecord (reg, l) (r # recs))
          = fst (foldl mergeRecord (fst (mergeRecord (reg, l) r), snd (mergeRecord (reg, l) r)) recs)"
    by simp
  also have "\<dots> = mergeStored (fst (mergeRecord (reg, l) r)) recs"
    by (rule Cons.IH)
  also have "\<dots> = mergeStored (fst (mergeRecord (reg, []) r)) recs"
    by (simp add: mergeRecord_fst_log [of reg l r "[]"])
  also have "\<dots> = fst (foldl mergeRecord (fst (mergeRecord (reg, []) r), snd (mergeRecord (reg, []) r)) recs)"
    by (rule Cons.IH [symmetric])
  also have "\<dots> = mergeStored reg (r # recs)"
    by (simp add: mergeStored_def)
  finally show ?case .
qed

lemma mergeStored_Cons:
  "mergeStored reg (r # recs) = mergeStored (fst (mergeRecord (reg, []) r)) recs"
  using foldl_mergeRecord_fst [of "fst (mergeRecord (reg, []) r)" "snd (mergeRecord (reg, []) r)" recs]
  by (simp add: mergeStored_def)

lemma mergeRecord_collision:
  "getStationIndex reg (sid r) \<noteq> - 1 \<Longrightarrow> fst (mergeRecord (reg, l) r) = reg"
  by (auto simp: mergeRecord_def fromJSON_def Util_addStationObject_def
      split: sum.splits dest: Station_Inr)

lemma mergeRecord_extends: "\<exists>ys. fst (mergeRecord (reg, l) r) = reg @ ys"
  by (simp add: mergeRecord_def Util_addStationObject_def split: sum.splits)

lemma mergeStored_extends: "\<exists>ys. mergeStored reg recs = reg @ ys"
proof (induction recs arbitrary: reg)
  case Nil
  show ?case by (simp add: mergeStored_def)
next
  case (Cons r recs)
  obtain ys where 1: "fst (mergeRecord (reg, []) r) = reg @ ys"
    using mergeRecord_extends by blast
  obtain zs where "mergeStored (reg @ ys) recs = (reg @ ys) @ zs"
    using Cons.IH by blast
  with 1 show ?case by (simp add: mergeStored_Cons)
qed

lemma mergeStored_drops_collisions:
  "sid ` set seeded \<subseteq> sid ` set reg \<Longrightarrow>
   mergeStored reg recs = mergeStored reg (filter (\<lambda>r. getStationIndex seeded (sid r) = - 1) recs)"
proof (induction recs arbitrary: reg)
  case Nil
  show ?case by simp
next
  case (Cons r recs)
  obtain ys where ext: "fst (mergeRecord (reg, []) r) = reg @ ys"
    using mergeRecord_extends by blast
  have sub: "sid ` set seeded \<subseteq> sid ` set (fst (mergeRecord (reg, []) r))"
    using Cons.prems unfolding ext by auto
  show ?case
  proof (cases "getStationIndex seeded (sid r) = - 1")
    case True
    with Cons.IH [OF sub] show ?thesis by (simp add: mergeStored_Cons)
  next
    case False
    then have "sid r \<in> sid ` set seeded" by (simp add: getStationIndex_absent)
    with Cons.prems have "getStationIndex reg (sid r) \<noteq> - 1"
      by (auto simp: getStationIndex_absent)
    then have "fst (mergeRecord (reg, []) r) = reg" by (rule mergeRecord_collision)
    with False Cons.IH [OF Cons.prems] show ?thesis by (simp add: mergeStored_Cons)
  qed
qed

text \<open>
  Claim C2. With a storage whose snapshot parses to an array of records, step 2 of
  \<^verbatim>\<open>beforeMount\<close> raises nothing and merges the records into the seeded registry so that:
  the result is the one of the snapshot without the records whose id is a seeded id (such
  records are discarded); the seeded stations stay, unchanged and in their order, at the
  front of the registry; the lookup of a seeded id finds the same position as before; and
  a single record whose id is in the registry leaves the registry as it is.
\<close>

theorem stored_collision_discarded:
  assumes "localStorage st = Some m" and "m ''stations'' = Some txt" and "txt \<noteq> []"
    and "JSON_parse txt = Some (JArray recs)"
  shows "snd (loadStored JSON_parse st) = None \<and>
     elems (stations (fst (loadStored JSON_parse st))) = mergeStored (elems (stations st)) recs \<and>
     mergeStored (elems (stations st)) recs
       = mergeStored (elems (stations st))
           (filter (\<lambda>r. getStationIndex (elems (stations st)) (sid r) = - 1) recs) \<and>
     take (length (elems (stations st))) (mergeStored (elems (stations st)) recs) = elems (stations st) \<and>
     (\<forall>i. getStationIndex (elems (stations st)) i \<noteq> - 1 \<longrightarrow>
        getStationIndex (mergeStored (elems (stations st)) recs) i = getStationIndex (elems (stations st)) i) \<and>
     (\<forall>reg l r. getStationIndex reg (sid r) \<noteq> - 1 \<longrightarrow> fst (mergeRecord (reg, l) r) = reg)"
proof -
  let ?reg = "elems (stations st)"
  obtain ys where ext: "mergeStored ?reg recs = ?reg @ ys"
    using mergeStored_extends by blast
  have 1: "snd (loadStored JSON_parse st) = None"
    using assms by (simp add: loadStored_def Let_def)
  have 2: "elems (stations (fst (loadStored JSON_parse st))) = mergeStored ?reg recs"
    using assms by (simp add: loadStored_def Let_def foldl_mergeRecord_fst)
  have 3: "mergeStored ?reg recs
       = mergeStored ?reg (filter (\<lambda>r. getStationIndex ?reg (sid r) = - 1) recs)"
    by (rule mergeStored_drops_collisions) simp
  have 4: "take (length ?reg) (mergeStored ?reg recs) = ?reg"
    unfolding ext by simp
  have 5: "\<forall>i. getStationIndex ?reg i \<noteq> - 1 \<longrightarrow>
        getStationIndex (mergeStored ?reg recs) i = getStationIndex ?reg i"
    unfolding ext by (simp add: getStationIndex_append_found)
  have 6: "\<forall>reg l r. getStationIndex reg (sid r) \<noteq> - 1 \<longrightarrow> fst (mergeRecord (reg, l) r) = reg"
    by (simp add: mergeRecord_collision)
  from 1 2 3 4 5 6 show ?thesis by blast
qed

theorem stored_collision_discarded_witness:
  "elems (stations (seedStations [liquid_radio]
      (initial_app (Some [''stations'' \<mapsto> snapshot_text])))) = [liquid_radio] \<and>
   example_parse snapshot_text = Some (JArray [stored_liquid, jazz_fm]) \<and>
   sid stored_liquid = sid liquid_radio \<and>
   elems (stations (fst (loadStored example_parse (seedStations [liquid_radio]
      (initial_app (Some [''stations'' \<mapsto> snapshot_text])))))) = [liquid_radio, jazz_fm]"
proof -
  let ?st = "seedStations [liquid_radio] (initial_app (Some [''stations'' \<mapsto> snapshot_text]))"
  have regs: "elems (stations ?st) = [liquid_radio]"
    by (simp add: seedStations_def addSeed_def Station_def initial_app_def Let_def liquid_radio_def)
  have h1: "localStorage ?st = Some [''stations'' \<mapsto> snapshot_text]"
    by (simp add: seedStations_def initial_app_def Let_def)
  have h2: "[''stations'' \<mapsto> snapshot_text] ''stations'' = Some snapshot_text"
    by simp
  have h3: "snapshot_text \<noteq> []"
    by (simp add: snapshot_text_def)
  have h4: "example_parse snapshot_text = Some (JArray [stored_liquid, jazz_fm])"
    by (simp add: example_parse_def)
  have m: "mergeStored [liquid_radio] [stored_liquid, jazz_fm] = [liquid_radio, jazz_fm]"
    by (simp add: mergeStored_def mergeRecord_def fromJSON_def Station_def Util_addStationObject_def
        liquid_radio_def stored_liquid_def jazz_fm_def)
  have i: "sid stored_liquid = sid liquid_radio"
    by (simp add: stored_liquid_def liquid_radio_def)
  from stored_collision_discarded [of ?st "[''stations'' \<mapsto> snapshot_text]" snapshot_text
      example_parse "[stored_liquid, jazz_fm]", OF h1 h2 h3 h4]
  have "elems (stations (fst (loadStored example_parse ?st))) = mergeStored (elems (stations ?st)) [stored_liquid, jazz_fm]"
    by blast
  then have "elems (stations (fst (loadStored example_parse ?st))) = [liquid_radio, jazz_fm]"
    unfolding regs m .
  with regs h4 i show ?thesis by blast
qed

section \<open>A snapshot that does not parse\<close>

lemma Station_accepts_unchanged:
  "Station (sid r) (title r) (description r) (source r) = Inr s \<Longrightarrow> s = (r::station)"
  by (auto simp: Station_def split: if_splits)

lemma foldl_addSeed:
  "fst (foldl addSeed (a, f) seeds)
     = a @ filter (\<lambda>r. Station (sid r) (title r) (description r) (source r) = Inr r) seeds"
proof (induction seeds arbitrary: a f)
  case Nil
  show ?case by simp
next
  case (Cons r seeds)
  show ?case
  proof (cases "Station (sid r) (title r) (description r) (source r)")
    case (Inl e)
    then have "addSeed (a, f) r = (a, f @ [r])" by (simp add: addSeed_def)
    with Inl show ?thesis by (simp add: Cons.IH)
  next
    case (Inr s)
    then have "s = r" by (rule Station_accepts_unchanged)
    with Inr have "addSeed (a, f) r = (a @ [r], f)" by (simp add: addSeed_def)
    with Inr \<open>s = r\<close> show ?thesis by (simp add: Cons.IH)
  qed
qed

lemma seedStations_elems:
  "elems (stations (seedStations seeds st))
     = elems (stations st) @ filter (\<lambda>r. Station (sid r) (title r) (description r) (source r) = Inr r) seeds"
  by (simp add: seedStations_def Let_def foldl_addSeed)

lemma seedStations_storage:
  "localStorage (seedStations seeds st) = localStorage st"
  "seedStations seeds (st\<lparr>localStorage := x\<rparr>) = (seedStations seeds st)\<lparr>localStorage := x\<rparr>"
  by (simp_all add: seedStations_def Let_def)

lemma initialStation_log:
  "initialStation route (s\<lparr>logged := l\<rparr>)
     = ((fst (initialStation route s))\<lparr>logged := l @ drop (length (logged s)) (logged (fst (initialStation route s)))\<rparr>,
        snd (initialStation route s))"
  by (simp add: initialStation_def switchStation_def Let_def split: option.splits)

lemma initialStation_frame:
  "localStorage (fst (initialStation route a)) = localStorage a"
  "stations (fst (initialStation route a)) = stations a"
  by (simp_all add: initialStation_def switchStation_def Let_def split: option.splits)

text \<open>
  Claim C7, amended. With a stored snapshot that is not empty and that \<^verbatim>\<open>JSON.parse\<close>
  rejects, \<^verbatim>\<open>beforeMount\<close> removes the entry from the storage and logs the failure; it
  raises what it raises without the entry, and ends in the state in which it ends without
  the entry, but for the log; and the registry is the one from before with the seed
  records that the constructor accepts, in their order.
\<close>

theorem corrupted_snapshot_erased:
  assumes "localStorage st = Some m" and "m ''stations'' = Some txt" and "txt \<noteq> []"
    and "JSON_parse txt = None"
  shows "localStorage (fst (beforeMount JSON_parse seeds route st)) = Some (m(''stations'' := None)) \<and>
    LogError ''Could not parse station config from local storage''
      \<in> set (logged (fst (beforeMount JSON_parse seeds route st))) \<and>
    snd (beforeMount JSON_parse seeds route st)
      = snd (beforeMount JSON_parse seeds route (st\<lparr>localStorage := Some (m(''stations'' := None))\<rparr>)) \<and>
    (fst (beforeMount JSON_parse seeds route st))\<lparr>logged := []\<rparr>
      = (fst (beforeMount JSON_parse seeds route (st\<lparr>localStorage := Some (m(''stations'' := None))\<rparr>)))
          \<lparr>logged := []\<rparr> \<and>
    elems (stations (fst (beforeMount JSON_parse seeds route st)))
      = elems (stations st) @
        filter (\<lambda>r. Station (sid r) (title r) (description r) (source r) = Inr r) seeds"
proof -
  let ?m' = "m(''stations'' := None)"
  let ?err = "LogError ''Could not parse station config from local storage''"
  let ?s = "seedStations seeds (st\<lparr>logged := logged st @ [LogDebug ''Application BEFORE MOUNT'']\<rparr>)"
  let ?a = "?s\<lparr>logged := logged ?s @ [?err], localStorage := Some ?m'\<rparr>"
  let ?b = "?s\<lparr>localStorage := Some ?m'\<rparr>"
  have sto: "localStorage ?s = Some m"
    using assms(1) by (simp add: seedStations_storage)
  have la: "loadStored JSON_parse ?s = (?a, None)"
    using sto assms(2-4) by (simp add: loadStored_def)
  have lb: "loadStored JSON_parse ?b = (?b, None)"
    by (simp add: loadStored_def)
  have ra: "beforeMount JSON_parse seeds route st = initialStation route ?a"
    by (simp add: beforeMount_def Let_def la)
  have sb: "seedStations seeds
              ((st\<lparr>localStorage := Some ?m'\<rparr>)
                 \<lparr>logged := logged (st\<lparr>localStorage := Some ?m'\<rparr>) @ [LogDebug ''Application BEFORE MOUNT'']\<rparr>)
            = ?b"
    by (simp add: seedStations_def Let_def)
  have rb: "beforeMount JSON_parse seeds route (st\<lparr>localStorage := Some ?m'\<rparr>) = initialStation route ?b"
    unfolding beforeMount_def Let_def sb lb by simp
  let ?I = "initialStation route ?b"
  let ?L = "logged ?s @ [?err]"
  have ab: "?a = ?b\<lparr>logged := ?L\<rparr>"
    by simp
  have R: "beforeMount JSON_parse seeds route st
             = ((fst ?I)\<lparr>logged := ?L @ drop (length (logged ?b)) (logged (fst ?I))\<rparr>, snd ?I)"
    unfolding ra ab by (rule initialStation_log)
  have 1: "localStorage (fst (beforeMount JSON_parse seeds route st)) = Some ?m'"
    unfolding R by (simp add: initialStation_frame)
  have 2: "?err \<in> set (logged (fst (beforeMount JSON_parse seeds route st)))"
    unfolding R by simp
  have 3: "snd (beforeMount JSON_parse seeds route st)
      = snd (beforeMount JSON_parse seeds route (st\<lparr>localStorage := Some ?m'\<rparr>))"
    unfolding R rb by simp
  have 4: "(fst (beforeMount JSON_parse seeds route st))\<lparr>logged := []\<rparr>
      = (fst (beforeMount JSON_parse seeds route (st\<lparr>localStorage := Some ?m'\<rparr>)))\<lparr>logged := []\<rparr>"
    unfolding R rb by simp
  have 5: "elems (stations (fst (beforeMount JSON_parse seeds route st)))
      = elems (stations st) @
        filter (\<lambda>r. Station (sid r) (title r) (description r) (source r) = Inr r) seeds"
    unfolding R by (simp add: initialStation_frame seedStations_elems)
  from 1 2 3 4 5 show ?thesis by blast
qed

theorem corrupted_snapshot_erased_witness:
  "example_parse ''{not json'' = None \<and>
   map_option (\<lambda>m. m ''stations'')
     (localStorage (fst (beforeMount example_parse [liquid_radio, broken_seed] ''/''
        (initial_app (Some [''stations'' \<mapsto> ''{not json''])))))
     = Some None \<and>
   elems (stations (fst (beforeMount example_parse [liquid_radio, broken_seed] ''/''
        (initial_app (Some [''stations'' \<mapsto> ''{not json''])))))
     = [liquid_radio]"
proof -
  let ?st = "initial_app (Some [''stations'' \<mapsto> ''{not json''])"
  have h1: "localStorage ?st = Some [''stations'' \<mapsto> ''{not json'']"
    by (simp add: initial_app_def)
  have h2: "[''stations'' \<mapsto> ''{not json''] ''stations'' = Some ''{not json''"
    by simp
  have h3: "''{not json'' \<noteq> []"
    by simp
  have h4: "example_parse ''{not json'' = None"
    by (simp add: example_parse_def snapshot_text_def)
  have e: "elems (stations ?st) = []"
    by (simp add: initial_app_def)
  have f: "filter (\<lambda>r. Station (sid r) (title r) (description r) (source r) = Inr r) [liquid_radio, broken_seed]
             = [liquid_radio]"
    by (simp add: Station_def liquid_radio_def broken_seed_def)
  note T = corrupted_snapshot_erased [of ?st "[''stations'' \<mapsto> ''{not json'']" "''{not json''"
      example_parse "[liquid_radio, broken_seed]" "''/''", OF h1 h2 h3 h4]
  have a: "localStorage (fst (beforeMount example_parse [liquid_radio, broken_seed] ''/'' ?st))
             = Some ([''stations'' \<mapsto> ''{not json''](''stations'' := None))"
    using T by blast
  have a': "map_option (\<lambda>m. m ''stations'')
     (localStorage (fst (beforeMount example_parse [liquid_radio, broken_seed] ''/'' ?st))) = Some None"
    unfolding a by simp
  have b: "elems (stations (fst (beforeMount example_parse [liquid_radio, broken_seed] ''/'' ?st)))
             = elems (stations ?st) @
               filter (\<lambda>r. Station (sid r) (title r) (description r) (source r) = Inr r) [liquid_radio, broken_seed]"
    using T by blast
  have b': "elems (stations (fst (beforeMount example_parse [liquid_radio, broken_seed] ''/'' ?st))) = [liquid_radio]"
    unfolding b e f by simp
  from h4 a' b' show ?thesis by blast
qed

text \<open>
  The claim C7 as it is written, for every stored value that is no JSON, fails on the
  empty string, which \<^verbatim>\<open>JSON.parse\<close> rejects: the test of line 108 takes it for a
  missing entry, so \<^verbatim>\<open>JSON.parse\<close> is not called, the entry stays in the storage and
  no failure is logged.
\<close>

theorem empty_snapshot_counterexample:
  "map_option (\<lambda>m. m ''stations'')
     (localStorage (fst (beforeMount (\<lambda>txt. None) [liquid_radio] ''/''
        (initial_app (Some [''stations'' \<mapsto> []]))))) = Some (Some []) \<and>
   logged (fst (beforeMount (\<lambda>txt. None) [liquid_radio] ''/''
        (initial_app (Some [''stations'' \<mapsto> []]))))
     = [LogDebug ''Application BEFORE MOUNT'', LogDebug ''Switched station to'']"
  by (simp add: beforeMount_def seedStations_def addSeed_def Station_def
      loadStored_def initialStation_def switchStation_def initial_app_def Let_def liquid_radio_def)

section \<open>Adding a station\<close>

text \<open>
  Claim C1. For every registry and every add request whose id already occurs in the
  registry, the add operation fails with \<open>DuplicateStation\<close> and the registry is the one
  before the call: \<^verbatim>\<open>Util.addStation\<close> returns the array as it was, and the editor's
  \<^verbatim>\<open>addStation\<close>, whose derived id is in the registry, raises nothing, leaves the station
  array as it was and shows the error.
\<close>

theorem add_duplicate_rejected:
  assumes "getStationIndex reg i \<noteq> - 1"
  shows "Util_addStation reg i t d s = (reg, Some DuplicateStation) \<and>
         (\<forall>st dr lc. selectedStation st = Some dr \<and> elems (stations st) = reg \<and>
             lc (replace_first CHR '' '' CHR ''_'' (title dr)) = i \<longrightarrow>
             snd (addStation lc st) = None \<and>
             stations (fst (addStation lc st)) = stations st \<and>
             validationError (fst (addStation lc st)) = Some DuplicateStation)"
  using assms by (auto simp: Util_addStation_def addStation_def Let_def)

theorem add_duplicate_rejected_witness:
  "getStationIndex [liquid_radio, jazz_fm] ''jazz_fm'' \<noteq> - 1 \<and>
   Util_addStation [liquid_radio, jazz_fm] ''jazz_fm'' ''Jazz FM'' [] (source jazz_fm)
     = ([liquid_radio, jazz_fm], Some DuplicateStation)"
proof -
  have h: "getStationIndex [liquid_radio, jazz_fm] ''jazz_fm'' \<noteq> - 1"
    by (simp add: liquid_radio_def jazz_fm_def)
  from add_duplicate_rejected [OF h] h show ?thesis by blast
qed

text \<open>
  Claim C8. With a draft in the editor, \<^verbatim>\<open>addStation\<close> raises nothing and stores in the
  draft the id that it hands to \<^verbatim>\<open>Util.addStation\<close>: the lower-cased title in which the
  first space, and only that one, has become an underscore (\<open>lc\<close> is \<^verbatim>\<open>toLowerCase\<close>).
  When the add fails, the dialog stays as it was, the error is shown and the station array
  is the one before; when it succeeds, the dialog is closed and the station with that id
  is the new last element.
\<close>

theorem commitAdd_derives_id:
  assumes "selectedStation st = Some d"
  shows "snd (addStation lc st) = None \<and>
   selectedStation (fst (addStation lc st))
     = Some (d\<lparr>sid := lc (replace_first CHR '' '' CHR ''_'' (title d))\<rparr>) \<and>
   (\<forall>a b. title d = a @ CHR '' '' # b \<and> CHR '' '' \<notin> set a \<longrightarrow>
      replace_first CHR '' '' CHR ''_'' (title d) = a @ CHR ''_'' # b) \<and>
   (CHR '' '' \<notin> set (title d) \<longrightarrow> replace_first CHR '' '' CHR ''_'' (title d) = title d) \<and>
   (\<forall>e. snd (Util_addStation (elems (stations st)) (lc (replace_first CHR '' '' CHR ''_'' (title d)))
             (title d) (description d) (source d)) = Some e \<longrightarrow>
      dialogOpen (fst (addStation lc st)) = dialogOpen st \<and>
      validationError (fst (addStation lc st)) = Some e \<and>
      stations (fst (addStation lc st)) = stations st) \<and>
   (snd (Util_addStation (elems (stations st)) (lc (replace_first CHR '' '' CHR ''_'' (title d)))
             (title d) (description d) (source d)) = None \<longrightarrow>
      dialogOpen (fst (addStation lc st)) = False \<and>
      validationError (fst (addStation lc st)) = None \<and>
      elems (stations (fst (addStation lc st)))
        = elems (stations st) @
          [\<lparr>sid = lc (replace_first CHR '' '' CHR ''_'' (title d)), title = title d,
            description = description d, source = source d\<rparr>])"
proof -
  let ?i = "lc (replace_first CHR '' '' CHR ''_'' (title d))"
  let ?u = "Util_addStation (elems (stations st)) ?i (title d) (description d) (source d)"
  have fail: "snd ?u = Some e \<Longrightarrow> fst ?u = elems (stations st)" for e
    by (auto simp: Util_addStation_def split: if_splits sum.splits)
  have ok: "snd ?u = None \<Longrightarrow>
      fst ?u = elems (stations st) @
        [\<lparr>sid = ?i, title = title d, description = description d, source = source d\<rparr>]"
    by (auto simp: Util_addStation_def Station_def split: if_splits sum.splits)
  have 1: "snd (addStation lc st) = None"
    using assms by (simp add: addStation_def Let_def split: prod.splits option.splits)
  have 2: "selectedStation (fst (addStation lc st)) = Some (d\<lparr>sid := ?i\<rparr>)"
    using assms by (simp add: addStation_def dialog_close_def Let_def split: prod.splits option.splits)
  have 3: "\<forall>a b. title d = a @ CHR '' '' # b \<and> CHR '' '' \<notin> set a \<longrightarrow>
      replace_first CHR '' '' CHR ''_'' (title d) = a @ CHR ''_'' # b"
    by (auto simp: replace_first_split)
  have 4: "CHR '' '' \<notin> set (title d) \<longrightarrow> replace_first CHR '' '' CHR ''_'' (title d) = title d"
    by (simp add: replace_first_none)
  have 5: "\<forall>e. snd ?u = Some e \<longrightarrow>
      dialogOpen (fst (addStation lc st)) = dialogOpen st \<and>
      validationError (fst (addStation lc st)) = Some e \<and>
      stations (fst (addStation lc st)) = stations st"
  proof (intro allI impI)
    fix e assume s: "snd ?u = Some e"
    then have "?u = (elems (stations st), Some e)"
      using fail [OF s] by (simp add: prod_eq_iff)
    with assms show "dialogOpen (fst (addStation lc st)) = dialogOpen st \<and>
      validationError (fst (addStation lc st)) = Some e \<and>
      stations (fst (addStation lc st)) = stations st"
      by (simp add: addStation_def Let_def)
  qed
  have 6: "snd ?u = None \<longrightarrow>
      dialogOpen (fst (addStation lc st)) = False \<and>
      validationError (fst (addStation lc st)) = None \<and>
      elems (stations (fst (addStation lc st)))
        = elems (stations st) @
          [\<lparr>sid = ?i, title = title d, description = description d, source = source d\<rparr>]"
  proof
    assume s: "snd ?u = None"
    then have "?u = (elems (stations st) @
        [\<lparr>sid = ?i, title = title d, description = description d, source = source d\<rparr>], None)"
      using ok [OF s] by (simp add: prod_eq_iff)
    with assms show "dialogOpen (fst (addStation lc st)) = False \<and>
      validationError (fst (addStation lc st)) = None \<and>
      elems (stations (fst (addStation lc st)))
        = elems (stations st) @
          [\<lparr>sid = ?i, title = title d, description = description d, source = source d\<rparr>]"
      by (simp add: addStation_def dialog_close_def Let_def)
  qed
  from 1 2 3 4 5 6 show ?thesis by blast
qed

theorem commitAdd_derives_id_witness:
  "map_option title (selectedStation (new_draft_app [liquid_radio])) = Some ''Jazz FM Two'' \<and>
   dialogOpen (new_draft_app [liquid_radio]) = True \<and>
   map_option sid (selectedStation (fst (addStation ascii_toLowerCase (new_draft_app [liquid_radio]))))
     = Some ''jazz_fm two'' \<and>
   dialogOpen (fst (addStation ascii_toLowerCase (new_draft_app [liquid_radio]))) = False \<and>
   map sid (elems (stations (fst (addStation ascii_toLowerCase (new_draft_app [liquid_radio])))))
     = [''liquid_radio'', ''jazz_fm two'']"
proof -
  let ?st = "new_draft_app [liquid_radio]"
  let ?d = "\<lparr>sid = [], title = ''Jazz FM Two'', description = [],
             source = [\<lparr>src = ''http://x/stream'', mime = ''audio/mpeg''\<rparr>], isNew = True\<rparr>"
  have sel: "selectedStation ?st = Some ?d"
    by (simp add: new_draft_app_def open_editor_def initial_app_def Let_def)
  have regs: "elems (stations ?st) = [liquid_radio]"
    by (simp add: new_draft_app_def open_editor_def initial_app_def Let_def)
  have op: "dialogOpen ?st = True"
    by (simp add: new_draft_app_def open_editor_def initial_app_def Let_def)
  have i: "ascii_toLowerCase (replace_first CHR '' '' CHR ''_'' (title ?d)) = ''jazz_fm two''"
    by (simp add: ascii_toLowerCase_def ascii_lower_def)
  have u: "snd (Util_addStation (elems (stations ?st)) (ascii_toLowerCase (replace_first CHR '' '' CHR ''_'' (title ?d)))
             (title ?d) (description ?d) (source ?d)) = None"
    unfolding i regs by (simp add: Util_addStation_def Station_def liquid_radio_def)
  note T = commitAdd_derives_id [OF sel, of ascii_toLowerCase]
  have a: "selectedStation (fst (addStation ascii_toLowerCase ?st)) = Some (?d\<lparr>sid := ''jazz_fm two''\<rparr>)"
    using T i by simp
  have b: "dialogOpen (fst (addStation ascii_toLowerCase ?st)) = False"
    using T u by blast
  have c: "elems (stations (fst (addStation ascii_toLowerCase ?st)))
        = elems (stations ?st) @
          [\<lparr>sid = ascii_toLowerCase (replace_first CHR '' '' CHR ''_'' (title ?d)), title = title ?d,
            description = description ?d, source = source ?d\<rparr>]"
    using T u by blast
  have c': "map sid (elems (stations (fst (addStation ascii_toLowerCase ?st)))) = [''liquid_radio'', ''jazz_fm two'']"
    unfolding c i regs by (simp add: liquid_radio_def)
  have s: "map_option title (selectedStation ?st) = Some ''Jazz FM Two''"
    unfolding sel by simp
  have a': "map_option sid (selectedStation (fst (addStation ascii_toLowerCase ?st))) = Some ''jazz_fm two''"
    unfolding a by simp
  from s op a' b c' show ?thesis by blast
qed

section \<open>Switching the station\<close>

text \<open>
  Claim C6. In every state with a current station, \<^verbatim>\<open>switchStation\<close> with the id of that
  station returns without an exception and leaves the whole state as it was: the current
  station is the same, and no \<^verbatim>\<open>reload\<close> is handed to \<^verbatim>\<open>Vue.nextTick\<close>.
\<close>

theorem switch_to_current_noop:
  assumes "currentStation st = Some c"
  shows "switchStation st (sid c) play = (st, None)"
  using assms by (simp add: switchStation_def)

theorem switch_to_current_noop_witness:
  "currentStation (started_app [liquid_radio, jazz_fm]) = Some liquid_radio \<and>
   switchStation (started_app [liquid_radio, jazz_fm]) ''liquid_radio'' True
     = (started_app [liquid_radio, jazz_fm], None)"
proof -
  have h: "currentStation (started_app [liquid_radio, jazz_fm]) = Some liquid_radio"
    by (simp add: started_app_def beforeMount_def seedStations_def addSeed_def Station_def
        loadStored_def initialStation_def switchStation_def initial_app_def Let_def
        liquid_radio_def jazz_fm_def)
  have "sid liquid_radio = ''liquid_radio''" by (simp add: liquid_radio_def)
  with switch_to_current_noop [OF h, of True] h show ?thesis by simp
qed

text \<open>
  Claim C5, amended. In every state with a current station, \<^verbatim>\<open>switchStation\<close> with an id
  that is not in the registry and is not the id of the current station raises
  \<open>UnknownStation\<close> and leaves the state, with its current station, as it was.
\<close>

theorem switch_unknown_fails:
  assumes "currentStation st = Some c"
    and "getStationIndex (elems (stations st)) i = - 1"
    and "i \<noteq> sid c"
  shows "switchStation st i play = (st, Some (UnknownStation i))"
  using assms by (simp add: switchStation_def)


theorem switch_unknown_fails_witness:
  "currentStation (started_app [liquid_radio, jazz_fm]) = Some liquid_radio \<and>
   getStationIndex (elems (stations (started_app [liquid_radio, jazz_fm]))) ''unknown_id'' = - 1 \<and>
   ''unknown_id'' \<noteq> sid liquid_radio \<and>
   switchStation (started_app [liquid_radio, jazz_fm]) ''unknown_id'' True
     = (started_app [liquid_radio, jazz_fm], Some (UnknownStation ''unknown_id''))"
proof -
  have regs: "elems (stations (started_app [liquid_radio, jazz_fm])) = [liquid_radio, jazz_fm]"
    by (simp add: started_app_def beforeMount_def seedStations_def addSeed_def Station_def
        loadStored_def initialStation_def switchStation_def initial_app_def Let_def
        liquid_radio_def jazz_fm_def)
  have h1: "currentStation (started_app [liquid_radio, jazz_fm]) = Some liquid_radio"
    by (simp add: started_app_def beforeMount_def seedStations_def addSeed_def Station_def
        loadStored_def initialStation_def switchStation_def initial_app_def Let_def
        liquid_radio_def jazz_fm_def)
  have h2: "getStationIndex (elems (stations (started_app [liquid_radio, jazz_fm]))) ''unknown_id'' = - 1"
    unfolding regs by (simp add: liquid_radio_def jazz_fm_def)
  have h3: "''unknown_id'' \<noteq> sid liquid_radio"
    by (simp add: liquid_radio_def)
  from switch_unknown_fails [OF h1 h2 h3, of True] h1 h2 h3 show ?thesis by simp
qed

text \<open>
  The claim C5 as it is written fails where the id is absent from the registry and is the
  id of the current station: line 195 returns before the lookup. The state is the one
  after the editor has deleted the current station \<open>liquid_radio\<close>.
\<close>

theorem switch_unknown_counterexample:
  "currentStation (fst (deleteHandler (editing_app [liquid_radio, jazz_fm] ''liquid_radio'')))
     = Some liquid_radio \<and>
   getStationIndex
     (elems (stations (fst (deleteHandler (editing_app [liquid_radio, jazz_fm] ''liquid_radio'')))))
     ''liquid_radio'' = - 1 \<and>
   snd (switchStation (fst (deleteHandler (editing_app [liquid_radio, jazz_fm] ''liquid_radio'')))
          ''liquid_radio'' True) = None"
  by (simp add: editing_app_def open_editor_def clone_def deleteHandler_def dialog_close_def splice1_def
      started_app_def beforeMount_def seedStations_def addSeed_def Station_def
      loadStored_def initialStation_def switchStation_def initial_app_def Let_def
      liquid_radio_def jazz_fm_def)

section \<open>Deleting a station\<close>




text \<open>The other methods of the editor leave the current station alone as well.\<close>

lemma editor_keeps_current:
  "currentStation (fst (open_editor i st)) = currentStation st"
  "currentStation (fst (addStation lc st)) = currentStation st"
  "currentStation (saveStationEdit st) = currentStation st"
  by (simp_all add: open_editor_def addStation_def saveStationEdit_def dialog_close_def Let_def
      split: option.splits prod.splits sum.splits)

text \<open>
  Claim C10, amended. \<^verbatim>\<open>deleteHandler\<close> never changes the current station. When the draft
  has the id of the current station and that id is in the registry, the call raises
  nothing, removes the first station of that id, so that the registry is one station
  shorter, and the current station is still the one from before; it is the removed
  station whenever it was that entry of the registry before the call; and if no other
  station has the id, the id of the current station is then absent from the registry.
\<close>

theorem delete_keeps_current:
  "currentStation (fst (deleteHandler st)) = currentStation st \<and>
   (\<forall>d c. selectedStation st = Some d \<and> currentStation st = Some c \<and> sid d = sid c \<and>
      getStationIndex (elems (stations st)) (sid c) \<noteq> - 1 \<longrightarrow>
      snd (deleteHandler st) = None \<and>
      elems (stations (fst (deleteHandler st)))
        = splice1 (elems (stations st)) (nat (getStationIndex (elems (stations st)) (sid c))) \<and>
      length (elems (stations (fst (deleteHandler st)))) = length (elems (stations st)) - 1 \<and>
      sid (elems (stations st) ! nat (getStationIndex (elems (stations st)) (sid c))) = sid c \<and>
      currentStation (fst (deleteHandler st)) = Some c \<and>
      (c = elems (stations st) ! nat (getStationIndex (elems (stations st)) (sid c)) \<longrightarrow>
         elems (stations st)
           = take (nat (getStationIndex (elems (stations st)) (sid c))) (elems (stations (fst (deleteHandler st))))
             @ c # drop (nat (getStationIndex (elems (stations st)) (sid c)))
                     (elems (stations (fst (deleteHandler st))))) \<and>
      (length (filter (\<lambda>s. sid s = sid c) (elems (stations st))) \<le> 1 \<longrightarrow>
         getStationIndex (elems (stations (fst (deleteHandler st)))) (sid c) = - 1))"
proof (intro conjI allI impI)
  show "currentStation (fst (deleteHandler st)) = currentStation st"
    by (simp add: deleteHandler_def dialog_close_def Let_def split: option.splits)
next
  fix d c
  assume h: "selectedStation st = Some d \<and> currentStation st = Some c \<and> sid d = sid c \<and>
      getStationIndex (elems (stations st)) (sid c) \<noteq> - 1"
  let ?k = "getStationIndex (elems (stations st)) (sid c)"
  from h have k: "?k \<noteq> - 1" by blast
  then have lt: "nat ?k < length (elems (stations st))"
    using getStationIndex_range [of "elems (stations st)" "sid c"] by auto
  show "snd (deleteHandler st) = None"
    using h by (simp add: deleteHandler_def Let_def)
  show e: "elems (stations (fst (deleteHandler st))) = splice1 (elems (stations st)) (nat ?k)"
    using h by (simp add: deleteHandler_def dialog_close_def Let_def)
  show "length (elems (stations (fst (deleteHandler st)))) = length (elems (stations st)) - 1"
    unfolding e using lt by (rule length_splice1)
  show "sid (elems (stations st) ! nat ?k) = sid c"
    using k by (rule getStationIndex_found)
  show "currentStation (fst (deleteHandler st)) = Some c"
    using h by (simp add: deleteHandler_def dialog_close_def Let_def)
  {
    assume c: "c = elems (stations st) ! nat ?k"
    have "elems (stations st)
            = take (nat ?k) (elems (stations st)) @ elems (stations st) ! nat ?k
                # drop (Suc (nat ?k)) (elems (stations st))"
      using lt by (rule id_take_nth_drop)
    moreover have "take (nat ?k) (splice1 (elems (stations st)) (nat ?k)) = take (nat ?k) (elems (stations st))"
      using lt by (simp add: splice1_def)
    moreover have "drop (nat ?k) (splice1 (elems (stations st)) (nat ?k)) = drop (Suc (nat ?k)) (elems (stations st))"
      using lt by (simp add: splice1_def)
    ultimately show "elems (stations st)
           = take (nat ?k) (elems (stations (fst (deleteHandler st))))
             @ c # drop (nat ?k) (elems (stations (fst (deleteHandler st))))"
      unfolding e using c by simp
  }
  assume "length (filter (\<lambda>s. sid s = sid c) (elems (stations st))) \<le> 1"
  then show "getStationIndex (elems (stations (fst (deleteHandler st)))) (sid c) = - 1"
    unfolding e using k by (rule splice1_removes_only)
qed

theorem delete_keeps_current_witness:
  "currentStation (editing_app [liquid_radio, jazz_fm] ''liquid_radio'') = Some liquid_radio \<and>
   map_option sid (selectedStation (editing_app [liquid_radio, jazz_fm] ''liquid_radio'')) = Some ''liquid_radio'' \<and>
   elems (stations (editing_app [liquid_radio, jazz_fm] ''liquid_radio'')) = [liquid_radio, jazz_fm] \<and>
   elems (stations (fst (deleteHandler (editing_app [liquid_radio, jazz_fm] ''liquid_radio'')))) = [jazz_fm] \<and>
   currentStation (fst (deleteHandler (editing_app [liquid_radio, jazz_fm] ''liquid_radio''))) = Some liquid_radio \<and>
   liquid_radio = elems (stations (editing_app [liquid_radio, jazz_fm] ''liquid_radio'')) ! 0 \<and>
   [liquid_radio, jazz_fm]
     = take 0 (elems (stations (fst (deleteHandler (editing_app [liquid_radio, jazz_fm] ''liquid_radio'')))))
       @ liquid_radio
         # drop 0 (elems (stations (fst (deleteHandler (editing_app [liquid_radio, jazz_fm] ''liquid_radio''))))) \<and>
   getStationIndex (elems (stations (fst (deleteHandler (editing_app [liquid_radio, jazz_fm] ''liquid_radio''))))) ''liquid_radio'' = - 1"
proof -
  let ?st = "editing_app [liquid_radio, jazz_fm] ''liquid_radio''"
  let ?d = "\<lparr>sid = ''liquid_radio'', title = ''Liquid Radio'', description = ''Drum and Bass'',
      source = [\<lparr>src = ''http://stream.example/liquid'', mime = ''audio/mpeg''\<rparr>], isNew = False\<rparr>"
  have regs: "elems (stations ?st) = [liquid_radio, jazz_fm]"
    by (simp add: editing_app_def open_editor_def clone_def start_defs liquid_radio_def jazz_fm_def)
  have sel: "selectedStation ?st = Some ?d"
    by (simp add: editing_app_def open_editor_def clone_def start_defs liquid_radio_def jazz_fm_def)
  have cur: "currentStation ?st = Some liquid_radio"
    by (simp add: editing_app_def open_editor_def clone_def start_defs liquid_radio_def jazz_fm_def)
  have i: "sid ?d = sid liquid_radio" "sid liquid_radio = ''liquid_radio''"
    by (simp_all add: liquid_radio_def)
  have k: "getStationIndex (elems (stations ?st)) (sid liquid_radio) = 0"
    unfolding regs by (simp add: liquid_radio_def)
  have one: "length (filter (\<lambda>s. sid s = sid liquid_radio) (elems (stations ?st))) \<le> 1"
    unfolding regs by (simp add: liquid_radio_def jazz_fm_def)
  have sp: "splice1 [liquid_radio, jazz_fm] (nat 0) = [jazz_fm]"
    by (simp add: splice1_def)
  have pre: "selectedStation ?st = Some ?d \<and> currentStation ?st = Some liquid_radio \<and>
      sid ?d = sid liquid_radio \<and> getStationIndex (elems (stations ?st)) (sid liquid_radio) \<noteq> - 1"
    using sel cur i(1) k by (intro conjI; simp)
  note T = delete_keeps_current [of ?st, THEN conjunct2, rule_format, OF pre]
  have e: "elems (stations (fst (deleteHandler ?st))) = [jazz_fm]"
    using T k regs sp by simp
  have c: "currentStation (fst (deleteHandler ?st)) = Some liquid_radio"
    using T by blast
  have g: "getStationIndex (elems (stations (fst (deleteHandler ?st)))) (sid liquid_radio) = - 1"
    using T one by blast
  have s: "map_option sid (selectedStation ?st) = Some ''liquid_radio''"
    unfolding sel by simp
  have n: "liquid_radio = elems (stations ?st) ! 0"
    unfolding regs by simp
  have n': "liquid_radio = elems (stations ?st) ! nat (getStationIndex (elems (stations ?st)) (sid liquid_radio))"
    unfolding k using n by simp
  have "elems (stations ?st)
          = take (nat (getStationIndex (elems (stations ?st)) (sid liquid_radio))) (elems (stations (fst (deleteHandler ?st))))
            @ liquid_radio # drop (nat (getStationIndex (elems (stations ?st)) (sid liquid_radio)))
                               (elems (stations (fst (deleteHandler ?st))))"
    using T n' by blast
  then have t: "[liquid_radio, jazz_fm]
          = take 0 (elems (stations (fst (deleteHandler ?st))))
            @ liquid_radio # drop 0 (elems (stations (fst (deleteHandler ?st))))"
    unfolding k regs by simp
  from cur s regs e c n t g [unfolded i(2)] show ?thesis by blast
qed

text \<open>
  The claim C10 as it is written says that the current station is the removed object.
  That fails after a saved edit of the current station: line 139 has put a new object
  into the registry, the current station is still the object from before the edit, and
  the delete removes the new one.
\<close>

theorem delete_removes_other_object_counterexample:
  "currentStation resaved_current_app = Some liquid_radio \<and>
   map_option sid (selectedStation resaved_current_app) = Some ''liquid_radio'' \<and>
   getStationIndex (elems (stations resaved_current_app)) ''liquid_radio'' = 0 \<and>
   elems (stations resaved_current_app) = [liquid_radio\<lparr>title := ''Liquid Two''\<rparr>, jazz_fm] \<and>
   elems (stations (fst (deleteHandler resaved_current_app))) = [jazz_fm] \<and>
   currentStation (fst (deleteHandler resaved_current_app)) = Some liquid_radio \<and>
   liquid_radio \<noteq> elems (stations resaved_current_app) ! 0"
  by (simp add: resaved_current_app_def editing_app_def open_editor_def clone_def saveStationEdit_def
      deleteHandler_def dialog_close_def splice1_def start_defs liquid_radio_def jazz_fm_def)

section \<open>Saving an edit\<close>

text \<open>With the id of the draft in the registry, the new station replaces the old one in place.\<close>

lemma save_present_id_in_place:
  assumes "selectedStation st = Some d"
    and "getStationIndex (elems (stations st)) (sid d) \<noteq> - 1"
    and "Station (sid d) (title d) (description d) (source d) = Inr s"
  shows "elems (stations (saveStationEdit st))
           = (elems (stations st))[nat (getStationIndex (elems (stations st)) (sid d)) := s]"
    and "map sid (elems (stations (saveStationEdit st))) = map sid (elems (stations st))"
    and "dialogOpen (saveStationEdit st) = False"
proof -
  show e: "elems (stations (saveStationEdit st))
           = (elems (stations st))[nat (getStationIndex (elems (stations st)) (sid d)) := s]"
    using assms by (simp add: saveStationEdit_def dialog_close_def Let_def)
  let ?k = "nat (getStationIndex (elems (stations st)) (sid d))"
  have lt: "?k < length (elems (stations st))"
    using assms(2) getStationIndex_range [of "elems (stations st)" "sid d"] by auto
  have "sid s = sid d"
    using assms(3) by (auto simp: Station_def split: if_splits)
  moreover have "sid (elems (stations st) ! ?k) = sid d"
    using assms(2) by (rule getStationIndex_found)
  ultimately have "sid s = map sid (elems (stations st)) ! ?k"
    using lt by simp
  then have "(map sid (elems (stations st)))[?k := sid s] = map sid (elems (stations st))"
    by simp
  then show "map sid (elems (stations (saveStationEdit st))) = map sid (elems (stations st))"
    unfolding e by (simp add: map_update)
  show "dialogOpen (saveStationEdit st) = False"
    using assms by (simp add: saveStationEdit_def dialog_close_def Let_def)
qed

text \<open>
  Claim C3, evaluated where the code departs from it. The editor is opened on \<open>jazz_fm\<close>,
  the station is deleted, and \<^verbatim>\<open>saveStationEdit\<close> is called: the id of the draft is not in
  the registry. The method logs the error of line 137 and goes on: the \<^verbatim>\<open>catch\<close> block is
  not entered (the last log entry is the one of line 137), no error is shown, the dialog
  is closed as after a successful save, and the station is stored as the property
  \<^verbatim>\<open>"-1"\<close> of the array, whose elements stay as they were.
\<close>

theorem save_absent_id_goes_on:
  "getStationIndex (elems (stations (fst (deleteHandler (editing_app [liquid_radio, jazz_fm] ''jazz_fm''))))) ''jazz_fm'' = - 1 \<and>
   map_option sid (selectedStation (fst (deleteHandler (editing_app [liquid_radio, jazz_fm] ''jazz_fm'')))) = Some ''jazz_fm'' \<and>
   validationError (saveStationEdit (fst (deleteHandler (editing_app [liquid_radio, jazz_fm] ''jazz_fm'')))) = None \<and>
   dialogOpen (saveStationEdit (fst (deleteHandler (editing_app [liquid_radio, jazz_fm] ''jazz_fm'')))) = False \<and>
   last (logged (saveStationEdit (fst (deleteHandler (editing_app [liquid_radio, jazz_fm] ''jazz_fm'')))))
     = LogError ''Attempted to save station data but could not find station in array by id'' \<and>
   elems (stations (saveStationEdit (fst (deleteHandler (editing_app [liquid_radio, jazz_fm] ''jazz_fm''))))) = [liquid_radio] \<and>
   prop_m1 (stations (saveStationEdit (fst (deleteHandler (editing_app [liquid_radio, jazz_fm] ''jazz_fm''))))) = Some jazz_fm"
  by (simp add: saveStationEdit_def editing_app_def open_editor_def clone_def deleteHandler_def
      dialog_close_def splice1_def started_app_def beforeMount_def seedStations_def addSeed_def
      Station_def loadStored_def initialStation_def switchStation_def initial_app_def Let_def
      liquid_radio_def jazz_fm_def)

section \<open>The snapshot in the storage\<close>

text \<open>
  A change that Vue has been notified of reaches the storage when the watcher runs, and
  the changes of \<^verbatim>\<open>addStation\<close> and \<^verbatim>\<open>deleteHandler\<close> notify Vue.
\<close>

lemma notified_change_persisted:
  assumes "localStorage st = Some m" and "stations_notified st"
  shows "map_option (\<lambda>m. m ''stations'') (localStorage (run_watchers js st))
           = Some (Some (js (elems (stations (run_watchers js st)))))"
  using assms by (simp add: run_watchers_def stations_watch_def)

lemma add_and_delete_notify:
  "snd (Util_addStation (elems (stations st)) (lc (replace_first CHR '' '' CHR ''_'' (title d)))
          (title d) (description d) (source d)) = None \<Longrightarrow>
   selectedStation st = Some d \<Longrightarrow> stations_notified (fst (addStation lc st))"
  "selectedStation st = Some d \<Longrightarrow> getStationIndex (elems (stations st)) (sid d) \<noteq> - 1 \<Longrightarrow>
   stations_notified (fst (deleteHandler st))"
  by (auto simp: addStation_def deleteHandler_def dialog_close_def Let_def split: prod.splits option.splits)

text \<open>
  Claim C4, evaluated where the code departs from it. The storage holds the snapshot of
  the registry \<open>[liquid_radio]\<close>; the user changes the title in the editor and saves.
  \<^verbatim>\<open>saveStationEdit\<close> replaces the station by an assignment to its index, Vue is not
  notified, the watcher does not run, and the storage still holds the snapshot of the
  registry from before the edit. \<open>js\<close> is \<^verbatim>\<open>JSON.stringify\<close>.
\<close>

theorem edit_leaves_snapshot_stale:
  "elems (stations (retitled_app js)) = [liquid_radio] \<and>
   map_option (\<lambda>m. m ''stations'') (localStorage (retitled_app js)) = Some (Some (js [liquid_radio])) \<and>
   elems (stations (saveStationEdit (retitled_app js))) = [liquid_radio\<lparr>title := ''Liquid Two''\<rparr>] \<and>
   run_watchers js (saveStationEdit (retitled_app js)) = saveStationEdit (retitled_app js) \<and>
   map_option (\<lambda>m. m ''stations'') (localStorage (run_watchers js (saveStationEdit (retitled_app js))))
     = Some (Some (js [liquid_radio])) \<and>
   [liquid_radio\<lparr>title := ''Liquid Two''\<rparr>] \<noteq> [liquid_radio]"
  by (simp add: retitled_app_def persisted_app_def run_watchers_def stations_watch_def
      saveStationEdit_def open_editor_def clone_def dialog_close_def
      beforeMount_def seedStations_def addSeed_def
      Station_def loadStored_def initialStation_def switchStation_def initial_app_def Let_def
      liquid_radio_def)

end
